theory Spec2Isabelle
  imports Complex_Main
begin

section \<open>Values of the host language\<close>

text \<open>
  The library is TypeScript running on Node.js. \<open>getOrDefault\<close> is generic in its result
  type, and at run time it receives and returns arbitrary JavaScript values, so the model
  has one type of values. A number is \<open>NaN\<close>, an infinity or a finite value (kept as an
  exact rational: rounding to a double and the sign of zero are not represented). A
  zero-argument function used as a default is represented by what a call of it does: it
  returns a value or throws.
\<close>

datatype error = TypeError | SyntaxError | Thrown string

datatype jsnum = NaN | PosInf | NegInf | Fin rat

datatype jsval =
    JUndefined
  | JNull
  | JBool bool
  | JNum jsnum
  | JBigInt int
  | JStr string
  | JArr "jsval list"
  | JObj "(string \<times> jsval) list"
  | JRegExp string string
  | JFun "error + jsval"

text \<open>The \<open>typeof\<close> operator.\<close>

fun typeof :: "jsval \<Rightarrow> string" where
  "typeof JUndefined = ''undefined''"
| "typeof JNull = ''object''"
| "typeof (JBool b) = ''boolean''"
| "typeof (JNum n) = ''number''"
| "typeof (JBigInt i) = ''bigint''"
| "typeof (JStr s) = ''string''"
| "typeof (JArr xs) = ''object''"
| "typeof (JObj kvs) = ''object''"
| "typeof (JRegExp src fl) = ''object''"
| "typeof (JFun r) = ''function''"

text \<open>\<open>v === null || v === undefined\<close>, \<open>Array.isArray(v)\<close> and
  \<open>v instanceof RegExp\<close>.\<close>

fun nullish :: "jsval \<Rightarrow> bool" where
  "nullish JUndefined = True"
| "nullish JNull = True"
| "nullish v = False"

fun isArray :: "jsval \<Rightarrow> bool" where
  "isArray (JArr xs) = True"
| "isArray v = False"

fun isRegExp :: "jsval \<Rightarrow> bool" where
  "isRegExp (JRegExp src fl) = True"
| "isRegExp v = False"

subsection \<open>String methods\<close>

text \<open>\<open>s.startsWith(p)\<close>, \<open>s.includes(p)\<close>, \<open>s.replace(p, r)\<close> with a string pattern
  (the first occurrence only) and \<open>s.split(sep)\<close> with a one-character separator.\<close>

fun startsWith :: "string \<Rightarrow> string \<Rightarrow> bool" where
  "startsWith s [] = True"
| "startsWith [] (p # ps) = False"
| "startsWith (c # cs) (p # ps) = (c = p \<and> startsWith cs ps)"

fun includes_str :: "string \<Rightarrow> string \<Rightarrow> bool" where
  "includes_str [] p = (p = [])"
| "includes_str (c # cs) p = (startsWith (c # cs) p \<or> includes_str cs p)"

fun replace :: "string \<Rightarrow> string \<Rightarrow> string \<Rightarrow> string" where
  "replace [] p r = (if p = [] then r else [])"
| "replace (c # cs) p r =
     (if startsWith (c # cs) p then r @ drop (length p) (c # cs) else c # replace cs p r)"

fun split :: "char \<Rightarrow> string \<Rightarrow> string list" where
  "split sep [] = [[]]"
| "split sep (c # cs) =
     (if c = sep then [] # split sep cs
      else (case split sep cs of [] \<Rightarrow> [[c]] | s # ss \<Rightarrow> (c # s) # ss))"

text \<open>The number of segments of a split: one more than the number of separators.\<close>

definition segments :: "string \<Rightarrow> nat" where
  "segments s = Suc (length (filter (\<lambda>c. c = CHR '','') s))"

section \<open>Container detection\<close>

text \<open>
  \<open>isDocker\<close> reads \<open>process.platform\<close>, the static field \<open>_isDocker\<close> and, through
  \<open>hasDockerEnv\<close> and \<open>hasDockerCGroup\<close>, the filesystem. The filesystem is what the two
  probes see of it: whether \<open>/.dockerenv\<close> exists and the text of \<open>/proc/self/cgroup\<close>
  (\<open>None\<close> when reading it throws). The process state holds the memo field and a counter
  of the filesystem calls made so far, so that "no probe ran" is a statement about the
  state. The platform is a constant of the process.
\<close>

record filesystem =
  dockerenv_exists :: bool
  cgroup_text :: "string option"

record process =
  isDocker_field :: "bool option"
  fs_calls :: nat

definition hasDockerEnv :: "string \<Rightarrow> filesystem \<Rightarrow> process \<Rightarrow> bool \<times> process" where
  "hasDockerEnv platform fs p =
     (if platform \<noteq> ''linux'' then (False, p)
      else (dockerenv_exists fs, p\<lparr>fs_calls := Suc (fs_calls p)\<rparr>))"

definition hasDockerCGroup :: "string \<Rightarrow> filesystem \<Rightarrow> process \<Rightarrow> bool \<times> process" where
  "hasDockerCGroup platform fs p =
     (if platform \<noteq> ''linux'' then (False, p)
      else ((case cgroup_text fs of None \<Rightarrow> False | Some t \<Rightarrow> includes_str t ''docker''),
            p\<lparr>fs_calls := Suc (fs_calls p)\<rparr>))"

definition isDocker :: "string \<Rightarrow> filesystem \<Rightarrow> process \<Rightarrow> bool \<times> process" where
  "isDocker platform fs p =
     (if platform \<noteq> ''linux'' then (False, p)
      else (case isDocker_field p of
              Some b \<Rightarrow> (b, p)
            | None \<Rightarrow>
               (let (a, p1) = hasDockerEnv platform fs p;
                    (b, p2) = (if a then (True, p1) else hasDockerCGroup platform fs p1)
                in (b, p2\<lparr>isDocker_field := Some b\<rparr>))))"

text \<open>A run of later calls, each against its own state of the filesystem.\<close>

fun isDocker_calls :: "string \<Rightarrow> filesystem list \<Rightarrow> process \<Rightarrow> bool list \<times> process" where
  "isDocker_calls platform [] p = ([], p)"
| "isDocker_calls platform (fs # fss) p =
     (let (b, p1) = isDocker platform fs p;
          (bs, p2) = isDocker_calls platform fss p1
      in (b # bs, p2))"

section \<open>The runtime's built-in functions\<close>

text \<open>
  \<open>getOrDefault\<close> calls \<open>parseFloat\<close>, \<open>BigInt\<close>, \<open>JSON.parse\<close>, \<open>JSON.stringify\<close>,
  \<open>new RegExp\<close> and the default's \<open>toString\<close> method. They belong to the JavaScript
  runtime, not to this library, so the model takes them as a parameter: the parser of
  number text, the parser of integer text (\<open>None\<close> for malformed text), the parser of
  JSON text (\<open>None\<close> for malformed text), the serialiser, the syntax check of a pattern
  with its flags, and \<open>toString\<close>. What the language fixes about calling them (the
  conversion of \<open>undefined\<close> to text, which error is thrown) is written out below.
\<close>

record runtime =
  parseFloat :: "string \<Rightarrow> jsnum"
  StringToBigInt :: "string \<Rightarrow> int option"
  JSON_parse :: "string \<Rightarrow> jsval option"
  JSON_stringify :: "jsval \<Rightarrow> error + string option"
  regexp_ok :: "string \<Rightarrow> string \<Rightarrow> bool"
  toString :: "jsval \<Rightarrow> string"

text \<open>The language's conversion of a value to a string.\<close>

definition ToString :: "runtime \<Rightarrow> jsval \<Rightarrow> string" where
  "ToString rt v =
     (case v of JUndefined \<Rightarrow> ''undefined'' | JNull \<Rightarrow> ''null'' | JStr s \<Rightarrow> s
      | _ \<Rightarrow> toString rt v)"

text \<open>\<open>a ?? b\<close> on optional strings, and \<open>defaultValue?.toString()\<close>.\<close>

definition coalesce :: "string option \<Rightarrow> string option \<Rightarrow> string option" where
  "coalesce a b = (case a of Some s \<Rightarrow> Some s | None \<Rightarrow> b)"

definition opt_toString :: "runtime \<Rightarrow> jsval \<Rightarrow> string option" where
  "opt_toString rt v =
     (case v of JUndefined \<Rightarrow> None | JNull \<Rightarrow> None | JStr s \<Rightarrow> Some s
      | _ \<Rightarrow> Some (toString rt v))"

text \<open>\<open>parseFloat(x)\<close>, \<open>BigInt(x)\<close> and \<open>JSON.parse(x)\<close> for \<open>x\<close> a string or
  \<open>undefined\<close>. \<open>parseFloat\<close> and \<open>JSON.parse\<close> convert their argument to a string
  first; \<open>BigInt(undefined)\<close> throws a \<open>TypeError\<close>, malformed text a \<open>SyntaxError\<close>.\<close>

definition js_parseFloat :: "runtime \<Rightarrow> string option \<Rightarrow> jsnum" where
  "js_parseFloat rt x = parseFloat rt (case x of None \<Rightarrow> ''undefined'' | Some s \<Rightarrow> s)"

definition js_BigInt :: "runtime \<Rightarrow> string option \<Rightarrow> error + jsval" where
  "js_BigInt rt x =
     (case x of
        None \<Rightarrow> Inl TypeError
      | Some s \<Rightarrow> (case StringToBigInt rt s of None \<Rightarrow> Inl SyntaxError | Some i \<Rightarrow> Inr (JBigInt i)))"

definition js_JSON_parse :: "runtime \<Rightarrow> string option \<Rightarrow> error + jsval" where
  "js_JSON_parse rt x =
     (case JSON_parse rt (case x of None \<Rightarrow> ''undefined'' | Some s \<Rightarrow> s) of
        None \<Rightarrow> Inl SyntaxError
      | Some v \<Rightarrow> Inr v)"

text \<open>
  \<open>new RegExp(pattern, flags)\<close>. A pattern object is a source text with a flag text. The
  constructor takes the source of a pattern argument that is itself a pattern object,
  the empty text for \<open>undefined\<close> and the string conversion otherwise, and likewise the
  flags; it throws a \<open>SyntaxError\<close> when the runtime refuses the two texts. (The
  constructor also escapes the source and orders the flags; both leave a source and flags
  read off an existing pattern as they are.)
\<close>

definition new_RegExp :: "runtime \<Rightarrow> jsval \<Rightarrow> jsval \<Rightarrow> error + jsval" where
  "new_RegExp rt pattern flags =
     (let P = (case pattern of JUndefined \<Rightarrow> [] | JRegExp src fl \<Rightarrow> src | _ \<Rightarrow> ToString rt pattern);
          F = (case flags of
                 JUndefined \<Rightarrow> (case pattern of JRegExp src fl \<Rightarrow> fl | _ \<Rightarrow> [])
               | _ \<Rightarrow> ToString rt flags)
      in if regexp_ok rt P F then Inr (JRegExp P F) else Inl SyntaxError)"

text \<open>Reading the property \<open>name\<close> of a value (\<open>v.source\<close>, \<open>v.flags\<close>): a \<open>TypeError\<close> on
  \<open>null\<close> and \<open>undefined\<close>, \<open>undefined\<close> for a property the value does not have.\<close>

definition getProp :: "jsval \<Rightarrow> string \<Rightarrow> error + jsval" where
  "getProp v name =
     (case v of
        JUndefined \<Rightarrow> Inl TypeError
      | JNull \<Rightarrow> Inl TypeError
      | JRegExp src fl \<Rightarrow>
          Inr (if name = ''source'' then JStr src else if name = ''flags'' then JStr fl
               else JUndefined)
      | JObj kvs \<Rightarrow> Inr (case map_of kvs name of None \<Rightarrow> JUndefined | Some w \<Rightarrow> w)
      | _ \<Rightarrow> Inr JUndefined)"

text \<open>\<open>defaultValue?.call(null)\<close>: \<open>undefined\<close> when the default is nullish, the call of a
  function, a \<open>TypeError\<close> when the value has no callable \<open>call\<close>.\<close>

definition opt_call :: "jsval \<Rightarrow> error + jsval" where
  "opt_call v =
     (case v of
        JUndefined \<Rightarrow> Inr JUndefined
      | JNull \<Rightarrow> Inr JUndefined
      | JFun r \<Rightarrow> r
      | JObj kvs \<Rightarrow> (case map_of kvs ''call'' of Some (JFun r) \<Rightarrow> r | _ \<Rightarrow> Inl TypeError)
      | _ \<Rightarrow> Inl TypeError)"

section \<open>Type converters\<close>

text \<open>Whitespace, trimming and lower case on ASCII text.\<close>

definition is_space :: "char \<Rightarrow> bool" where
  "is_space c = (c \<in> set [CHR 0x09, CHR 0x0A, CHR 0x0B, CHR 0x0C, CHR 0x0D, CHR '' ''])"

definition trim :: "string \<Rightarrow> string" where
  "trim s = rev (dropWhile is_space (rev (dropWhile is_space s)))"

definition toLowerCase :: "string \<Rightarrow> string" where
  "toLowerCase s =
     map (\<lambda>c. let n = (of_char c :: nat) in if 65 \<le> n \<and> n \<le> 90 then char_of (n + 32) else c) s"

text \<open>Modelled from the spec: \<open>toBoolean\<close> of \<open>./type_converters\<close>, which \<open>index.ts\<close> imports
  and which is not among the sources. It returns the fallback when the raw text is absent,
  and otherwise whether the lower-cased, trimmed text is \<open>true\<close> or \<open>1\<close>. It never throws.\<close>

definition toBoolean :: "string option \<Rightarrow> jsval \<Rightarrow> jsval" where
  "toBoolean raw fallback =
     (case raw of
        None \<Rightarrow> fallback
      | Some s \<Rightarrow> (let t = trim (toLowerCase s) in JBool (t = ''true'' \<or> t = ''1'')))"

text \<open>Modelled from the spec: \<open>toArray\<close> of \<open>./type_converters\<close>, not among the sources. It
  applies the converter to each raw element in order and gives the sequence of the results,
  as long as the input; an exception of the converter propagates.\<close>

fun convert_each :: "(string \<Rightarrow> error + jsval) \<Rightarrow> string list \<Rightarrow> error + jsval list" where
  "convert_each f [] = Inr []"
| "convert_each f (x # xs) =
     (case f x of
        Inl e \<Rightarrow> Inl e
      | Inr v \<Rightarrow> (case convert_each f xs of Inl e \<Rightarrow> Inl e | Inr vs \<Rightarrow> Inr (v # vs)))"

text \<open>Modelled from the spec: the array that \<open>toArray\<close> returns, see \<open>convert_each\<close>.\<close>

definition toArray :: "string list \<Rightarrow> (string \<Rightarrow> error + jsval) \<Rightarrow> error + jsval" where
  "toArray arr f = (case convert_each f arr of Inl e \<Rightarrow> Inl e | Inr vs \<Rightarrow> Inr (JArr vs))"

section \<open>getOrDefault\<close>

text \<open>
  The revision of \<open>getOrDefault\<close> that knows the \<open>array<...>\<close> types. The process
  environment is a map from names to texts, the optional type is a string or absent.
  The function is read in three parts: the type it dispatches on, the inner switch on the
  element type of an array, and the outer switch.
\<close>

type_synonym environment = "string \<Rightarrow> string option"

text \<open>\<open>let type = optionalType ?? typeof defaultValue\<close>, and \<open>type = optionalType\<close> when the
  default is \<open>null\<close> or \<open>undefined\<close>. \<open>None\<close> is \<open>undefined\<close>.\<close>

definition resolveType :: "jsval \<Rightarrow> string option \<Rightarrow> string option" where
  "resolveType defaultValue optionalType =
     (let type = (case optionalType of Some t \<Rightarrow> Some t | None \<Rightarrow> Some (typeof defaultValue))
      in if nullish defaultValue then optionalType else type)"

text \<open>The switch on \<open>arrayType\<close>, on the elements of the split raw text.\<close>

definition convertElements :: "runtime \<Rightarrow> string option \<Rightarrow> string list \<Rightarrow> error + jsval" where
  "convertElements rt arrayType arr =
     (if arrayType = Some ''boolean'' then toArray arr (\<lambda>v. Inr (toBoolean (Some v) JUndefined))
      else if arrayType = Some ''number'' then toArray arr (\<lambda>v. Inr (JNum (js_parseFloat rt (Some v))))
      else if arrayType = Some ''bigint'' then toArray arr (\<lambda>v. js_BigInt rt (Some v))
      else if arrayType = Some ''object'' then toArray arr (\<lambda>v. js_JSON_parse rt (Some v))
      else if arrayType = Some ''regexp'' then toArray arr (\<lambda>v. new_RegExp rt (JStr v) JUndefined)
      else Inr (JArr (map JStr arr)))"

text \<open>Modelled from the spec: the scalar converter of an element shape, in the spec's
  words: boolean, \<open>toBoolean\<close> with no per-element default; number, float parse; bigint,
  integer parse; object, parse as structured text; regexp, compile as pattern; else the
  string itself. It is what \<open>convertElements\<close> is compared with.\<close>

definition scalarConverter :: "runtime \<Rightarrow> string \<Rightarrow> string \<Rightarrow> error + jsval" where
  "scalarConverter rt element raw =
     (if element = ''boolean'' then Inr (toBoolean (Some raw) JUndefined)
      else if element = ''number'' then Inr (JNum (parseFloat rt raw))
      else if element = ''bigint'' then js_BigInt rt (Some raw)
      else if element = ''object'' then js_JSON_parse rt (Some raw)
      else if element = ''regexp'' then new_RegExp rt (JStr raw) JUndefined
      else Inr (JStr raw))"

text \<open>\<open>new RegExp(value ?? defaultValue.source, defaultValue.flags)\<close>, the arguments
  evaluated from left to right.\<close>

definition regexpFrom :: "runtime \<Rightarrow> string option \<Rightarrow> jsval \<Rightarrow> error + jsval" where
  "regexpFrom rt val defaultValue =
     (case (case val of Some s \<Rightarrow> Inr (JStr s) | None \<Rightarrow> getProp defaultValue ''source'') of
        Inl e \<Rightarrow> Inl e
      | Inr pattern \<Rightarrow>
          (case getProp defaultValue ''flags'' of
             Inl e \<Rightarrow> Inl e
           | Inr flags \<Rightarrow> new_RegExp rt pattern flags))"

text \<open>\<open>(value as T) || x\<close>: the raw text when it is present and not empty, else \<open>x\<close>.\<close>

definition orElse :: "string option \<Rightarrow> error + jsval \<Rightarrow> error + jsval" where
  "orElse val x = (case val of None \<Rightarrow> x | Some s \<Rightarrow> if s \<noteq> [] then Inr (JStr s) else x)"

text \<open>The switch on \<open>type\<close>.\<close>

definition switchType ::
  "runtime \<Rightarrow> string \<Rightarrow> string option \<Rightarrow> string option \<Rightarrow> jsval \<Rightarrow> error + jsval" where
  "switchType rt type arrayType val defaultValue =
     (if type = ''boolean'' then Inr (toBoolean val defaultValue)
      else if type = ''number'' then
        Inr (JNum (js_parseFloat rt (coalesce val (opt_toString rt defaultValue))))
      else if type = ''bigint'' then js_BigInt rt (coalesce val (opt_toString rt defaultValue))
      else if type = ''function'' then orElse val (opt_call defaultValue)
      else if type = ''array'' then
        (case val of
           None \<Rightarrow> Inr defaultValue
         | Some s \<Rightarrow> convertElements rt arrayType (split CHR '','' s))
      else if type = ''regexp'' then regexpFrom rt val defaultValue
      else if isArray defaultValue then
        (case val of None \<Rightarrow> Inr defaultValue | Some s \<Rightarrow> Inr (JArr (map JStr (split CHR '','' s))))
      else if isRegExp defaultValue then regexpFrom rt val defaultValue
      else if type = ''object'' then
        (case val of
           Some s \<Rightarrow> js_JSON_parse rt (Some s)
         | None \<Rightarrow>
            (case JSON_stringify rt defaultValue of
               Inl e \<Rightarrow> Inl e
             | Inr t \<Rightarrow> js_JSON_parse rt t))
      else orElse val (Inr defaultValue))"

text \<open>The whole function. \<open>type.startsWith\<close> on an undefined \<open>type\<close> throws a
  \<open>TypeError\<close>.\<close>

definition getOrDefault ::
  "runtime \<Rightarrow> environment \<Rightarrow> string \<Rightarrow> jsval \<Rightarrow> string option \<Rightarrow> error + jsval" where
  "getOrDefault rt env key defaultValue optionalType =
     (case resolveType defaultValue optionalType of
        None \<Rightarrow> Inl TypeError
      | Some t \<Rightarrow>
          (let val = env key in
           if startsWith t ''array<''
           then switchType rt ''array'' (Some (replace (replace t ''array<'' []) ''>'' [])) val
                  defaultValue
           else switchType rt t None val defaultValue))"

subsection \<open>The revision in \<open>environment/index.ts\<close>\<close>

text \<open>
  The sources hold a second, earlier text of the same function, without the element
  types of arrays. It takes the type from \<open>typeof defaultValue\<close> and reads \<open>optionalType\<close>
  only when the default is \<open>null\<close> or \<open>undefined\<close>; it has the cases \<open>array\<close> and \<open>object\<close>
  in the switch, and no \<open>type.startsWith\<close>. The claims are settled on the revision above,
  which the repository's tests of \<open>array<...>\<close> exercise; this one is kept for comparison.
\<close>

definition resolveType_index :: "jsval \<Rightarrow> string option \<Rightarrow> string option" where
  "resolveType_index defaultValue optionalType =
     (if nullish defaultValue then optionalType else Some (typeof defaultValue))"

definition getOrDefault_index ::
  "runtime \<Rightarrow> environment \<Rightarrow> string \<Rightarrow> jsval \<Rightarrow> string option \<Rightarrow> error + jsval" where
  "getOrDefault_index rt env key defaultValue optionalType =
     (let type = resolveType_index defaultValue optionalType;
          val = env key
      in if type = Some ''boolean'' then Inr (toBoolean val defaultValue)
         else if type = Some ''number'' then
           Inr (JNum (js_parseFloat rt (coalesce val (opt_toString rt defaultValue))))
         else if type = Some ''bigint'' then
           js_BigInt rt (coalesce val (opt_toString rt defaultValue))
         else if type = Some ''function'' then orElse val (opt_call defaultValue)
         else if type = Some ''array'' then
           (case val of
              None \<Rightarrow> Inr defaultValue
            | Some s \<Rightarrow> Inr (JArr (map JStr (split CHR '','' s))))
         else if type = Some ''object'' then
           js_JSON_parse rt (coalesce val (opt_toString rt defaultValue))
         else if type = Some ''regexp'' then regexpFrom rt val defaultValue
         else if isArray defaultValue then
           (case val of
              None \<Rightarrow> Inr defaultValue
            | Some s \<Rightarrow> Inr (JArr (map JStr (split CHR '','' s))))
         else if isRegExp defaultValue then regexpFrom rt val defaultValue
         else if typeof defaultValue = ''object'' then
           (case val of
              Some s \<Rightarrow> js_JSON_parse rt (Some s)
            | None \<Rightarrow>
               (case JSON_stringify rt defaultValue of
                  Inl e \<Rightarrow> Inl e
                | Inr t \<Rightarrow> js_JSON_parse rt t))
         else orElse val (Inr defaultValue))"

section \<open>Overrides\<close>

text \<open>The override store is a map from variable names to values that are already
  typed.\<close>

type_synonym overrides = "string \<Rightarrow> jsval option"

text \<open>Modelled from the spec: \<open>overrideVariable\<close> of the override store, which the
  repository's tests call and the sources do not hold. It inserts or replaces the entry
  of a key.\<close>

definition overrideVariable :: "overrides \<Rightarrow> string \<Rightarrow> jsval \<Rightarrow> overrides" where
  "overrideVariable ov key v = ov(key \<mapsto> v)"

text \<open>Modelled from the spec: whether the store has an entry for the key.\<close>

definition isVariableOverridden :: "overrides \<Rightarrow> string \<Rightarrow> bool" where
  "isVariableOverridden ov key = (ov key \<noteq> None)"

text \<open>Modelled from the spec: the stored value of the key, \<open>undefined\<close> without an entry.\<close>

definition getOverriddenVariable :: "overrides \<Rightarrow> string \<Rightarrow> jsval" where
  "getOverriddenVariable ov key = (case ov key of None \<Rightarrow> JUndefined | Some v \<Rightarrow> v)"

text \<open>Modelled from the spec: removal of the entry of a key, nothing when it has none.\<close>

definition removeOverriddenVariable :: "overrides \<Rightarrow> string \<Rightarrow> overrides" where
  "removeOverriddenVariable ov key = ov(key := None)"

text \<open>Modelled from the spec: \<open>resolve\<close>, which is \<open>getOrDefault\<close> behind the override
  check. The sources hold \<open>getOrDefault\<close> without the check; the spec puts the check first:
  a key with a live override entry gets the stored value as it is, any other key goes
  through the coercion of \<open>getOrDefault\<close>.\<close>

definition resolve ::
  "runtime \<Rightarrow> overrides \<Rightarrow> environment \<Rightarrow> string \<Rightarrow> jsval \<Rightarrow> string option \<Rightarrow> error + jsval" where
  "resolve rt ov env key defaultValue declaredShape =
     (if isVariableOverridden ov key then Inr (getOverriddenVariable ov key)
      else getOrDefault rt env key defaultValue declaredShape)"

section \<open>A runtime for the examples\<close>

text \<open>
  The closed examples below need the built-in functions at concrete texts. The general
  theorems hold for every runtime; \<open>sample_runtime\<close> is only the runtime of the examples.
  Its number and integer parsers follow the grammar of the language on ASCII text (exact
  values, no rounding). Its JSON parser and serialiser are a table of the texts the
  examples use: a text off the table is reported as malformed. Its pattern check accepts
  the patterns made of letters, digits, \<open>^\<close> and \<open>$\<close> with well-formed flags. Its
  \<open>toString\<close> writes a finite number in plain decimal notation and a function as the
  text of a built-in (the model does not keep a function's source).
\<close>

definition char_digit :: "char \<Rightarrow> nat option" where
  "char_digit c =
     (let n = (of_char c :: nat) in
      if 48 \<le> n \<and> n \<le> 57 then Some (n - 48)
      else if 97 \<le> n \<and> n \<le> 102 then Some (n - 87)
      else if 65 \<le> n \<and> n \<le> 70 then Some (n - 55)
      else None)"

definition is_digit :: "char \<Rightarrow> bool" where
  "is_digit c = (let n = (of_char c :: nat) in 48 \<le> n \<and> n \<le> 57)"

fun radix_val :: "nat \<Rightarrow> nat \<Rightarrow> string \<Rightarrow> nat option" where
  "radix_val b acc [] = Some acc"
| "radix_val b acc (c # cs) =
     (case char_digit c of
        None \<Rightarrow> None
      | Some d \<Rightarrow> if d < b then radix_val b (b * acc + d) cs else None)"

definition digits_val :: "nat \<Rightarrow> string \<Rightarrow> nat option" where
  "digits_val b ds = (if ds = [] then None else radix_val b 0 ds)"

definition take_sign :: "string \<Rightarrow> bool \<times> string" where
  "take_sign s =
     (case s of
        [] \<Rightarrow> (False, [])
      | c # r \<Rightarrow> if c = CHR ''-'' then (True, r) else if c = CHR ''+'' then (False, r)
                else (False, s))"

definition exponent_of :: "string \<Rightarrow> int" where
  "exponent_of r =
     (case r of
        [] \<Rightarrow> 0
      | c # r' \<Rightarrow>
          if c = CHR ''e'' \<or> c = CHR ''E'' then
            (let (neg, ds) = take_sign r' in
             case digits_val 10 (takeWhile is_digit ds) of
               None \<Rightarrow> 0
             | Some e \<Rightarrow> if neg then - int e else int e)
          else 0)"

definition scale10 :: "rat \<Rightarrow> int \<Rightarrow> rat" where
  "scale10 m e = (if 0 \<le> e then m * 10 ^ nat e else m / 10 ^ nat (- e))"

definition sample_parseFloat :: "string \<Rightarrow> jsnum" where
  "sample_parseFloat s =
     (let (neg, u) = take_sign (dropWhile is_space s) in
      if startsWith u ''Infinity'' then (if neg then NegInf else PosInf)
      else
        (let ip = takeWhile is_digit u;
             r1 = dropWhile is_digit u;
             (fp, r2) = (case r1 of
                           [] \<Rightarrow> ([], [])
                         | c # r \<Rightarrow> if c = CHR ''.''
                                    then (takeWhile is_digit r, dropWhile is_digit r)
                                    else ([], r1))
         in case digits_val 10 (ip @ fp) of
              None \<Rightarrow> NaN
            | Some m \<Rightarrow>
                Fin ((if neg then - 1 else 1)
                     * scale10 (of_nat m / 10 ^ length fp) (exponent_of r2))))"

definition sample_StringToBigInt :: "string \<Rightarrow> int option" where
  "sample_StringToBigInt s =
     (let t = trim s in
      if t = [] then Some 0
      else if startsWith t ''0x'' \<or> startsWith t ''0X'' then map_option int (digits_val 16 (drop 2 t))
      else if startsWith t ''0o'' \<or> startsWith t ''0O'' then map_option int (digits_val 8 (drop 2 t))
      else if startsWith t ''0b'' \<or> startsWith t ''0B'' then map_option int (digits_val 2 (drop 2 t))
      else (let (neg, ds) = take_sign t in
            map_option (\<lambda>n. if neg then - int n else int n) (digits_val 10 ds)))"

definition sample_JSON_table :: "(string \<times> jsval) list" where
  \<open>sample_JSON_table =
     [(''null'', JNull), (''true'', JBool True), (''false'', JBool False),
      (''0'', JNum (Fin 0)), (''1'', JNum (Fin 1)),
      (''{}'', JObj []), (''[]'', JArr []),
      (''{"foo":"bar"}'', JObj [(''foo'', JStr ''bar'')]),
      (''{"foo":"baz"}'', JObj [(''foo'', JStr ''baz'')])]\<close>

definition sample_JSON_parse :: "string \<Rightarrow> jsval option" where
  "sample_JSON_parse s = map_of sample_JSON_table s"

definition sample_JSON_stringify :: "jsval \<Rightarrow> error + string option" where
  "sample_JSON_stringify v =
     (case v of
        JUndefined \<Rightarrow> Inr None
      | JFun r \<Rightarrow> Inr None
      | JBigInt i \<Rightarrow> Inl TypeError
      | _ \<Rightarrow> Inr (map_option fst (find (\<lambda>(t, w). w = v) sample_JSON_table)))"

definition sample_regexp_ok :: "string \<Rightarrow> string \<Rightarrow> bool" where
  "sample_regexp_ok P F =
     (distinct F \<and> set F \<subseteq> set ''dgimsuvy'' \<and> \<not> (CHR ''u'' \<in> set F \<and> CHR ''v'' \<in> set F)
      \<and> list_all (\<lambda>c. c = CHR ''^'' \<or> c = CHR ''$'' \<or> is_digit c
                       \<or> (let n = (of_char c :: nat) in (97 \<le> n \<and> n \<le> 122) \<or> (65 \<le> n \<and> n \<le> 90))) P)"

fun show_nat :: "nat \<Rightarrow> string" where
  "show_nat n =
     (if n < 10 then [char_of (48 + n)] else show_nat (n div 10) @ [char_of (48 + n mod 10)])"

declare show_nat.simps [simp del]

definition show_int :: "int \<Rightarrow> string" where
  "show_int i = (if i < 0 then CHR ''-'' # show_nat (nat (- i)) else show_nat (nat i))"

fun fraction_digits :: "nat \<Rightarrow> rat \<Rightarrow> string" where
  "fraction_digits 0 r = []"
| "fraction_digits (Suc k) r =
     (if r = 0 then []
      else (let d = nat \<lfloor>r * 10\<rfloor> in char_of (48 + d) # fraction_digits k (r * 10 - of_nat d)))"

definition show_rat :: "rat \<Rightarrow> string" where
  "show_rat r =
     (let a = \<bar>r\<bar>; i = \<lfloor>a\<rfloor>; f = a - of_int i in
      (if r < 0 then ''-'' else []) @ show_nat (nat i)
      @ (if f = 0 then [] else CHR ''.'' # fraction_digits 20 f))"

fun join :: "string list \<Rightarrow> string" where
  "join [] = []"
| "join [s] = s"
| "join (s # t # ts) = s @ CHR '','' # join (t # ts)"

fun sample_toString :: "jsval \<Rightarrow> string" where
  "sample_toString JUndefined = ''undefined''"
| "sample_toString JNull = ''null''"
| "sample_toString (JBool b) = (if b then ''true'' else ''false'')"
| "sample_toString (JNum NaN) = ''NaN''"
| "sample_toString (JNum PosInf) = ''Infinity''"
| "sample_toString (JNum NegInf) = ''-Infinity''"
| "sample_toString (JNum (Fin r)) = show_rat r"
| "sample_toString (JBigInt i) = show_int i"
| "sample_toString (JStr s) = s"
| "sample_toString (JArr xs) =
     join (map (\<lambda>x. if x = JNull \<or> x = JUndefined then [] else sample_toString x) xs)"
| "sample_toString (JObj kvs) = ''[object Object]''"
| "sample_toString (JRegExp src fl) = ''/'' @ src @ ''/'' @ fl"
| "sample_toString (JFun r) = ''function () { [native code] }''"

definition sample_runtime :: runtime where
  "sample_runtime =
     \<lparr>parseFloat = sample_parseFloat, StringToBigInt = sample_StringToBigInt,
      JSON_parse = sample_JSON_parse, JSON_stringify = sample_JSON_stringify,
      regexp_ok = sample_regexp_ok, toString = sample_toString\<rparr>"

section \<open>Properties of the container memo\<close>

lemma isDocker_stable:
  "isDocker platform fs p = (b, p') \<Longrightarrow> isDocker platform fs' p' = (b, p')"
  by (auto simp: isDocker_def hasDockerEnv_def hasDockerCGroup_def Let_def
           split: if_splits option.splits prod.splits)

lemma isDocker_calls_stable:
  "isDocker platform fs0 p0 = (b, p) \<Longrightarrow>
   isDocker_calls platform later p = (replicate (length later) b, p)"
proof (induction later)
  case Nil
  show ?case by simp
next
  case (Cons fs fss)
  have "isDocker platform fs p = (b, p)"
    using Cons.prems by (rule isDocker_stable)
  with Cons show ?case by simp
qed

text \<open>
  Claim C8. Once a call of \<open>isDocker\<close> has returned \<open>b\<close>, every later call of the process
  returns \<open>b\<close> again, whatever the filesystem has become, and leaves the process state as
  it is: the memo field is not written and the counter of filesystem calls does not move,
  so no probe runs. A memo field that was set before the call keeps its value, and on
  Linux the field holds the result after the call.
\<close>

theorem isDocker_memo:
  assumes "isDocker platform fs0 p0 = (b, p)"
  shows "isDocker_calls platform later p = (replicate (length later) b, p)
         \<and> (isDocker_field p0 = Some m \<longrightarrow> isDocker_field p = Some m)
         \<and> (platform = ''linux'' \<longrightarrow> isDocker_field p = Some b)"
  using assms isDocker_calls_stable[OF assms, of later]
  by (auto simp: isDocker_def hasDockerEnv_def hasDockerCGroup_def Let_def
           split: if_splits option.splits prod.splits)

theorem isDocker_memo_witness:
  "isDocker ''linux'' \<lparr>dockerenv_exists = True, cgroup_text = None\<rparr>
       \<lparr>isDocker_field = None, fs_calls = 0\<rparr>
     = (True, \<lparr>isDocker_field = Some True, fs_calls = 1\<rparr>)
   \<and> isDocker_calls ''linux''
       [\<lparr>dockerenv_exists = False, cgroup_text = None\<rparr>,
        \<lparr>dockerenv_exists = False, cgroup_text = Some ''0::/''\<rparr>]
       \<lparr>isDocker_field = Some True, fs_calls = 1\<rparr>
     = ([True, True], \<lparr>isDocker_field = Some True, fs_calls = 1\<rparr>)"
proof -
  have h: "isDocker ''linux'' \<lparr>dockerenv_exists = True, cgroup_text = None\<rparr>
       \<lparr>isDocker_field = None, fs_calls = 0\<rparr>
     = (True, \<lparr>isDocker_field = Some True, fs_calls = 1\<rparr>)"
    by (simp add: isDocker_def hasDockerEnv_def)
  from isDocker_memo[OF h, of "[\<lparr>dockerenv_exists = False, cgroup_text = None\<rparr>,
        \<lparr>dockerenv_exists = False, cgroup_text = Some ''0::/''\<rparr>]"] h
  show ?thesis by (simp add: numeral_2_eq_2)
qed

section \<open>Properties of the override check\<close>

text \<open>
  Claim C1. For a key with a live override entry, \<open>resolve\<close> returns the stored value as
  it is, for every runtime, environment, default and declared shape: the raw variable of
  the key is not read and no coercion runs. The same holds right after
  \<open>overrideVariable\<close> has stored the value.
\<close>

theorem resolve_override_verbatim:
  assumes "ov key = Some v"
  shows "resolve rt ov env key dv shape = Inr v
         \<and> resolve rt (overrideVariable ov' key v) env key dv shape = Inr v"
  using assms
  by (simp add: resolve_def isVariableOverridden_def getOverriddenVariable_def
        overrideVariable_def)

theorem resolve_override_verbatim_witness:
  "resolve sample_runtime (overrideVariable Map.empty ''FOO_BAR'' (JNum (Fin 2)))
     (Map.empty(''FOO_BAR'' \<mapsto> ''1'')) ''FOO_BAR'' (JNum (Fin 0)) None = Inr (JNum (Fin 2))"
proof -
  have h: "overrideVariable Map.empty ''FOO_BAR'' (JNum (Fin 2)) ''FOO_BAR'' = Some (JNum (Fin 2))"
    by (simp add: overrideVariable_def)
  from h resolve_override_verbatim[where ov = "overrideVariable Map.empty ''FOO_BAR'' (JNum (Fin 2))"
      and key = "''FOO_BAR''" and v = "JNum (Fin 2)" and rt = sample_runtime
      and env = "Map.empty(''FOO_BAR'' \<mapsto> ''1'')" and dv = "JNum (Fin 0)" and shape = None]
  show ?thesis by simp
qed

section \<open>Properties of the type that is dispatched on\<close>

text \<open>
  Claim C2. With a default of \<open>null\<close> or \<open>undefined\<close> and no declared type, \<open>type\<close> is
  \<open>undefined\<close> when \<open>type.startsWith\<close> is reached, so \<open>getOrDefault\<close> throws a \<open>TypeError\<close>
  for every key, whether the raw variable is set or not. It does not return \<open>null\<close>.
\<close>

theorem getOrDefault_nullish_default_throws:
  "getOrDefault rt env key JNull None = Inl TypeError
   \<and> getOrDefault rt env key JUndefined None = Inl TypeError"
  by (simp add: getOrDefault_def resolveType_def)

theorem getOrDefault_nullish_default_throws_witness:
  "getOrDefault sample_runtime Map.empty ''FOO_BAR'' JNull None = Inl TypeError"
  using getOrDefault_nullish_default_throws[of sample_runtime Map.empty "''FOO_BAR''"] by simp

text \<open>The earlier revision returns \<open>null\<close> at the same input, as the repository's test
  expects. It sends an array default through \<open>JSON.parse\<close> of its text (the test expects
  the array back), and it ignores a declared type next to a default that is not nullish.\<close>

lemma getOrDefault_index_null_default:
  "getOrDefault_index sample_runtime Map.empty ''FOO_BAR'' JNull None = Inr JNull"
  by code_simp

lemma getOrDefault_index_array_default:
  "getOrDefault_index sample_runtime Map.empty ''FOO_BAR_BEZ'' (JArr [JStr ''0'']) None
     = Inr (JNum (Fin 0))"
  by code_simp

lemma getOrDefault_index_ignores_declared_type:
  "getOrDefault_index sample_runtime (Map.empty(''FOO_BAR'' \<mapsto> ''1'')) ''FOO_BAR''
     (JNum (Fin 0)) (Some ''bigint'') = Inr (JNum (Fin 1))"
  by code_simp

text \<open>
  Claim C3. When a type is declared, it is the type dispatched on, whatever the default
  is: \<open>resolveType\<close> returns it, and \<open>getOrDefault\<close> is the switch on it (on \<open>array\<close> with
  the element type taken out of it, when it starts with \<open>array<\<close>). In particular the
  declared type \<open>bigint\<close> with a raw text gives the integer parse of the raw text for every
  default, a number included.
\<close>

theorem getOrDefault_declared_type_verbatim:
  "resolveType dv (Some shape) = Some shape
   \<and> getOrDefault rt env key dv (Some shape) =
       (if startsWith shape ''array<''
        then switchType rt ''array'' (Some (replace (replace shape ''array<'' []) ''>'' []))
               (env key) dv
        else switchType rt shape None (env key) dv)
   \<and> getOrDefault rt (env(key \<mapsto> raw)) key dv (Some ''bigint'') = js_BigInt rt (Some raw)"
  by (simp add: getOrDefault_def resolveType_def switchType_def coalesce_def)

theorem getOrDefault_declared_type_verbatim_witness:
  "getOrDefault sample_runtime (Map.empty(''FOO_BAR'' \<mapsto> ''1'')) ''FOO_BAR'' (JNum (Fin 0))
     (Some ''bigint'') = Inr (JBigInt 1)"
proof -
  have "js_BigInt sample_runtime (Some ''1'') = Inr (JBigInt 1)" by code_simp
  with getOrDefault_declared_type_verbatim[of "JNum (Fin 0)" "''bigint''" sample_runtime
         Map.empty "''FOO_BAR''" "''1''"]
  show ?thesis by simp
qed

section \<open>Properties of the scalar shapes\<close>

text \<open>
  Claim C7. With a zero-argument function as the default and no declared type: when the
  raw variable is present and not empty, \<open>getOrDefault\<close> returns the raw text as it is;
  when the raw variable is empty or absent, it calls the function and its outcome is the
  outcome of the call.
\<close>

theorem getOrDefault_callback:
  "(raw \<noteq> [] \<longrightarrow> getOrDefault rt (env(key \<mapsto> raw)) key (JFun r) None = Inr (JStr raw))
   \<and> getOrDefault rt (env(key \<mapsto> [])) key (JFun r) None = r
   \<and> getOrDefault rt (env(key := None)) key (JFun r) None = r"
  by (simp add: getOrDefault_def resolveType_def switchType_def orElse_def opt_call_def)

theorem getOrDefault_callback_witness:
  "getOrDefault sample_runtime (Map.empty(''K'' \<mapsto> ''x'')) ''K'' (JFun (Inr (JStr ''0''))) None
     = Inr (JStr ''x'')
   \<and> getOrDefault sample_runtime (Map.empty(''K'' := None)) ''K'' (JFun (Inr (JStr ''0''))) None
     = Inr (JStr ''0'')"
  using getOrDefault_callback[of "''x''" sample_runtime Map.empty "''K''" "Inr (JStr ''0'')"]
  by simp

text \<open>
  Claim C9. With a pattern as the default, and the type \<open>regexp\<close> declared or no type
  declared, \<open>getOrDefault\<close> is the constructor applied to the raw text (the default's source
  when the raw variable is absent) and to the default's flags. A pattern it returns has
  the flags of the default, and it returns one whenever the runtime accepts the source
  with these flags. The raw text supplies no flags.
\<close>

theorem getOrDefault_regexp_flags:
  assumes "ot = None \<or> ot = Some ''regexp''"
  shows "getOrDefault rt env key (JRegExp src fl) ot =
           new_RegExp rt (JStr (case env key of Some raw \<Rightarrow> raw | None \<Rightarrow> src)) (JStr fl)
       \<and> (getOrDefault rt env key (JRegExp src fl) ot = Inr v \<longrightarrow>
            v = JRegExp (case env key of Some raw \<Rightarrow> raw | None \<Rightarrow> src) fl)
       \<and> (regexp_ok rt (case env key of Some raw \<Rightarrow> raw | None \<Rightarrow> src) fl \<longrightarrow>
            getOrDefault rt env key (JRegExp src fl) ot
              = Inr (JRegExp (case env key of Some raw \<Rightarrow> raw | None \<Rightarrow> src) fl))"
  using assms
  by (auto simp: getOrDefault_def resolveType_def switchType_def regexpFrom_def getProp_def
        new_RegExp_def ToString_def Let_def split: option.splits if_splits)

theorem getOrDefault_regexp_flags_witness:
  "getOrDefault sample_runtime (Map.empty(''K'' \<mapsto> ''^foo$'')) ''K'' (JRegExp ''^foo$'' ''i'') None
     = Inr (JRegExp ''^foo$'' ''i'')"
proof -
  have ok: "regexp_ok sample_runtime ''^foo$'' ''i''" by code_simp
  have shape: "(None :: string option) = None \<or> None = Some ''regexp''" by simp
  note c = getOrDefault_regexp_flags[where ot = None and rt = sample_runtime
      and env = "Map.empty(''K'' \<mapsto> ''^foo$'')" and key = "''K''" and src = "''^foo$''"
      and fl = "''i''", OF shape]
  from c[THEN conjunct2, THEN conjunct2] ok show ?thesis by simp
qed

text \<open>
  Claim C10. For the number shape (the type \<open>number\<close> declared, or a number as the default
  and no type declared), a raw variable that is set is what the float parser reads, the
  empty text included; the default is read only when the variable is absent. The float
  parser of JavaScript gives \<open>NaN\<close> for the empty text, and then so does \<open>getOrDefault\<close>.
\<close>

theorem getOrDefault_number_empty_raw:
  assumes "ot = Some ''number'' \<or> (ot = None \<and> dv = JNum n)"
  shows "getOrDefault rt (env(key \<mapsto> raw)) key dv ot = Inr (JNum (parseFloat rt raw))
       \<and> (parseFloat rt [] = NaN \<longrightarrow>
            getOrDefault rt (env(key \<mapsto> [])) key dv ot = Inr (JNum NaN))
       \<and> getOrDefault rt (env(key := None)) key dv ot
           = Inr (JNum (js_parseFloat rt (opt_toString rt dv)))"
proof -
  have "resolveType dv ot = Some ''number''"
    using assms by (auto simp: resolveType_def)
  then show ?thesis
    by (simp add: getOrDefault_def switchType_def coalesce_def js_parseFloat_def)
qed

theorem getOrDefault_number_empty_raw_witness:
  "getOrDefault sample_runtime (Map.empty(''K'' \<mapsto> [])) ''K'' (JNum (Fin 7)) None = Inr (JNum NaN)"
proof -
  have t: "(None :: string option) = Some ''number'' \<or> (None = None \<and> JNum (Fin 7) = JNum (Fin 7))"
    by simp
  have nan: "parseFloat sample_runtime [] = NaN" by code_simp
  from getOrDefault_number_empty_raw[where ot = None and dv = "JNum (Fin 7)" and n = "Fin 7"
      and rt = sample_runtime and env = Map.empty and key = "''K''", OF t] nan
  show ?thesis by simp
qed

section \<open>Properties of the array shapes\<close>

lemma split_not_Nil: "split sep s \<noteq> []"
  by (induction s) (auto split: list.splits)

lemma length_split: "length (split sep s) = Suc (length (filter (\<lambda>c. c = sep) s))"
proof (induction s)
  case Nil
  show ?case by simp
next
  case (Cons c cs)
  then show ?case using split_not_Nil[of sep cs]
    by (cases "split sep cs") auto
qed

lemma convert_each_Inr:
  "convert_each f xs = Inr vs \<Longrightarrow>
   length vs = length xs \<and> (\<forall>i<length xs. f (xs ! i) = Inr (vs ! i))"
proof (induction xs arbitrary: vs)
  case Nil
  then show ?case by simp
next
  case (Cons x xs)
  from Cons.prems obtain v ws where v: "f x = Inr v" and ws: "convert_each f xs = Inr ws"
    and vs: "vs = v # ws"
    by (auto split: sum.splits)
  from Cons.IH[OF ws] have len: "length ws = length xs"
    and nth: "\<forall>i<length xs. f (xs ! i) = Inr (ws ! i)" by simp_all
  show ?case
  proof (intro conjI allI impI)
    show "length vs = length (x # xs)" using len vs by simp
  next
    fix i assume "i < length (x # xs)"
    then show "f ((x # xs) ! i) = Inr (vs ! i)"
      using v nth vs by (cases i) simp_all
  qed
qed

lemma convert_each_total:
  "(\<forall>x\<in>set xs. \<exists>v. f x = Inr v) \<Longrightarrow> \<exists>vs. convert_each f xs = Inr vs"
  by (induction xs) (auto split: sum.splits)

lemma convert_each_fails:
  assumes "\<exists>x\<in>set xs. \<exists>e. f x = Inl e"
  shows "\<exists>e. convert_each f xs = Inl e"
proof (cases "convert_each f xs")
  case (Inl e)
  then show ?thesis by simp
next
  case (Inr vs)
  from assms obtain x e where x: "x \<in> set xs" and e: "f x = Inl e" by blast
  from x obtain i where "i < length xs" and "xs ! i = x"
    by (auto simp: in_set_conv_nth)
  with convert_each_Inr[OF Inr] e show ?thesis by auto
qed

lemma convert_each_Inr_map: "convert_each (\<lambda>x. Inr (g x)) xs = Inr (map g xs)"
  by (induction xs) simp_all

lemma convertElements_spec:
  "convertElements rt (Some element) arr = toArray arr (scalarConverter rt element)"
proof -
  have fn: "scalarConverter rt element =
     (if element = ''boolean'' then (\<lambda>v. Inr (toBoolean (Some v) JUndefined))
      else if element = ''number'' then (\<lambda>v. Inr (JNum (js_parseFloat rt (Some v))))
      else if element = ''bigint'' then (\<lambda>v. js_BigInt rt (Some v))
      else if element = ''object'' then (\<lambda>v. js_JSON_parse rt (Some v))
      else if element = ''regexp'' then (\<lambda>v. new_RegExp rt (JStr v) JUndefined)
      else (\<lambda>v. Inr (JStr v)))"
    by (rule ext) (simp add: scalarConverter_def js_parseFloat_def)
  show ?thesis
    unfolding fn by (simp add: convertElements_def toArray_def convert_each_Inr_map)
qed

lemma element_of_array_type:
  assumes "element \<in> set [''boolean'', ''number'', ''bigint'', ''object'', ''regexp'', ''string'']"
  shows "startsWith (''array<'' @ element @ ''>'') ''array<''
       \<and> replace (replace (''array<'' @ element @ ''>'') ''array<'' []) ''>'' [] = element"
  using assms by auto

lemma getOrDefault_array:
  "env key = Some raw \<Longrightarrow> startsWith sh ''array<'' \<Longrightarrow>
   getOrDefault rt env key dv (Some sh)
     = convertElements rt (Some (replace (replace sh ''array<'' []) ''>'' [])) (split CHR '','' raw)"
  by (simp add: getOrDefault_def resolveType_def switchType_def)

text \<open>
  Claim C5, as stated, fails for the element types whose converter can throw: with the
  declared type \<open>array<bigint>\<close> and the raw text \<open>1,x\<close> the second segment is not an
  integer, \<open>BigInt\<close> throws a \<open>SyntaxError\<close> and the call has no result.
\<close>

theorem getOrDefault_array_element_raises:
  "getOrDefault sample_runtime (Map.empty(''K'' \<mapsto> ''1,x'')) ''K'' (JArr []) (Some ''array<bigint>'')
     = Inl SyntaxError"
  by code_simp

text \<open>
  Claim C5, amended. For a raw variable that is present and a declared type
  \<open>array<element>\<close> with \<open>element\<close> one of the six element types, \<open>getOrDefault\<close> is
  \<open>toArray\<close> of the comma split of the raw text and the scalar converter of the element
  type. The split has one segment more than the raw text has commas. A result is an array
  with as many elements as there are segments, its i-th element the conversion of the
  i-th segment; there is a result whenever every segment converts, which is always so for
  \<open>boolean\<close>, \<open>number\<close> and \<open>string\<close>. When the conversion of a segment throws, the call
  throws.
\<close>

theorem getOrDefault_array_elementwise:
  assumes raw: "env key = Some raw"
    and el: "element \<in> set [''boolean'', ''number'', ''bigint'', ''object'', ''regexp'', ''string'']"
  shows "getOrDefault rt env key dv (Some (''array<'' @ element @ ''>''))
           = toArray (split CHR '','' raw) (scalarConverter rt element)
       \<and> length (split CHR '','' raw) = segments raw
       \<and> (getOrDefault rt env key dv (Some (''array<'' @ element @ ''>'')) = Inr v \<longrightarrow>
            (\<exists>vs. v = JArr vs \<and> length vs = segments raw
                  \<and> (\<forall>i<segments raw.
                        scalarConverter rt element (split CHR '','' raw ! i) = Inr (vs ! i))))
       \<and> ((\<forall>s\<in>set (split CHR '','' raw). \<exists>w. scalarConverter rt element s = Inr w) \<longrightarrow>
            (\<exists>vs. getOrDefault rt env key dv (Some (''array<'' @ element @ ''>'')) = Inr (JArr vs)))
       \<and> (element \<in> set [''boolean'', ''number'', ''string''] \<longrightarrow>
            (\<exists>vs. getOrDefault rt env key dv (Some (''array<'' @ element @ ''>'')) = Inr (JArr vs)))
       \<and> ((\<exists>s\<in>set (split CHR '','' raw). \<exists>e. scalarConverter rt element s = Inl e) \<longrightarrow>
            (\<exists>e. getOrDefault rt env key dv (Some (''array<'' @ element @ ''>'')) = Inl e))"
proof -
  let ?segs = "split CHR '','' raw"
  let ?f = "scalarConverter rt element"
  let ?res = "getOrDefault rt env key dv (Some (''array<'' @ element @ ''>''))"
  have res: "?res = toArray ?segs ?f"
  proof -
    have "?res = convertElements rt
            (Some (replace (replace (''array<'' @ element @ ''>'') ''array<'' []) ''>'' [])) ?segs"
      using raw element_of_array_type[OF el] by (intro getOrDefault_array) simp_all
    then show ?thesis
      using element_of_array_type[OF el] by (simp only: convertElements_spec)
  qed
  have len: "length ?segs = segments raw"
    by (simp add: length_split segments_def)
  have shape: "?res = Inr v \<longrightarrow>
      (\<exists>vs. v = JArr vs \<and> length vs = segments raw
          \<and> (\<forall>i<segments raw. ?f (?segs ! i) = Inr (vs ! i)))"
  proof
    assume "?res = Inr v"
    then obtain vs where vs: "convert_each ?f ?segs = Inr vs" and v: "v = JArr vs"
      unfolding res toArray_def by (auto split: sum.splits)
    from convert_each_Inr[OF vs] len v
    show "\<exists>vs. v = JArr vs \<and> length vs = segments raw
          \<and> (\<forall>i<segments raw. ?f (?segs ! i) = Inr (vs ! i))"
      by auto
  qed
  have total: "(\<forall>s\<in>set ?segs. \<exists>w. ?f s = Inr w) \<longrightarrow> (\<exists>vs. ?res = Inr (JArr vs))"
  proof
    assume "\<forall>s\<in>set ?segs. \<exists>w. ?f s = Inr w"
    from convert_each_total[OF this] obtain vs where "convert_each ?f ?segs = Inr vs" ..
    then show "\<exists>vs. ?res = Inr (JArr vs)" unfolding res toArray_def by simp
  qed
  have safe: "element \<in> set [''boolean'', ''number'', ''string''] \<longrightarrow> (\<exists>vs. ?res = Inr (JArr vs))"
  proof
    assume "element \<in> set [''boolean'', ''number'', ''string'']"
    then have "\<forall>s\<in>set ?segs. \<exists>w. ?f s = Inr w"
      by (auto simp: scalarConverter_def)
    with total show "\<exists>vs. ?res = Inr (JArr vs)" by blast
  qed
  have fails: "(\<exists>s\<in>set ?segs. \<exists>e. ?f s = Inl e) \<longrightarrow> (\<exists>e. ?res = Inl e)"
  proof
    assume "\<exists>s\<in>set ?segs. \<exists>e. ?f s = Inl e"
    from convert_each_fails[OF this] obtain e where "convert_each ?f ?segs = Inl e" ..
    then show "\<exists>e. ?res = Inl e" unfolding res toArray_def by simp
  qed
  show ?thesis using res len shape total safe fails by (intro conjI)
qed

theorem getOrDefault_array_elementwise_witness:
  "getOrDefault sample_runtime (Map.empty(''K'' \<mapsto> ''1,2,3'')) ''K'' (JArr []) (Some ''array<number>'')
     = Inr (JArr [JNum (Fin 1), JNum (Fin 2), JNum (Fin 3)])
   \<and> segments ''1,2,3'' = 3"
proof -
  have raw: "(Map.empty(''K'' \<mapsto> ''1,2,3'')) ''K'' = Some ''1,2,3''" by simp
  have el: "''number'' \<in> set [''boolean'', ''number'', ''bigint'', ''object'', ''regexp'', ''string'']"
    by simp
  have ev: "toArray (split CHR '','' ''1,2,3'') (scalarConverter sample_runtime ''number'')
              = Inr (JArr [JNum (Fin 1), JNum (Fin 2), JNum (Fin 3)])"
    by code_simp
  have sg: "segments ''1,2,3'' = 3" by code_simp
  from raw el ev sg
    getOrDefault_array_elementwise[where env = "Map.empty(''K'' \<mapsto> ''1,2,3'')" and key = "''K''"
      and raw = "''1,2,3''" and element = "''number''" and rt = sample_runtime and dv = "JArr []"]
  show ?thesis by simp
qed

text \<open>
  Claim C6. When the raw variable is absent and the call is resolved to an array shape
  (a declared type that starts with \<open>array<\<close>, whatever the element type, the declared
  type \<open>array\<close>, or an array as the default and no declared type), \<open>getOrDefault\<close> returns
  the default as it is: no converter is applied to it.
\<close>

theorem getOrDefault_array_absent_default:
  assumes "env key = None"
  shows "(startsWith shape ''array<'' \<longrightarrow> getOrDefault rt env key dv (Some shape) = Inr dv)
       \<and> getOrDefault rt env key dv (Some ''array'') = Inr dv
       \<and> getOrDefault rt env key (JArr xs) None = Inr (JArr xs)"
  using assms by (simp add: getOrDefault_def resolveType_def switchType_def)

theorem getOrDefault_array_absent_default_witness:
  "getOrDefault sample_runtime Map.empty ''K'' (JArr [JNum (Fin 3), JNum (Fin 2)]) (Some ''array<number>'')
     = Inr (JArr [JNum (Fin 3), JNum (Fin 2)])"
proof -
  have h: "(Map.empty :: environment) ''K'' = None" by simp
  from h getOrDefault_array_absent_default[where env = Map.empty and key = "''K''"
      and shape = "''array<number>''" and rt = sample_runtime
      and dv = "JArr [JNum (Fin 3), JNum (Fin 2)]"]
  show ?thesis by simp
qed

section \<open>Which shapes can raise\<close>

text \<open>
  Claim C4, as stated, fails: the object shape raises. With an object as the default (or
  the type \<open>object\<close> declared) and the raw text \<open>abc\<close>, \<open>JSON.parse\<close> throws a \<open>SyntaxError\<close>
  and \<open>getOrDefault\<close> lets it through.
\<close>

theorem getOrDefault_object_raises:
  "getOrDefault sample_runtime (Map.empty(''K'' \<mapsto> ''abc'')) ''K'' (JObj []) None = Inl SyntaxError
   \<and> resolveType (JObj []) None = Some ''object''
   \<and> getOrDefault sample_runtime (Map.empty(''K'' \<mapsto> ''abc'')) ''K'' JUndefined (Some ''object'')
        = Inl SyntaxError"
  by code_simp

text \<open>
  Claim C4, amended. \<open>getOrDefault\<close> returns a value, and so does not raise, when the type
  it dispatches on is \<open>boolean\<close>, \<open>number\<close>, \<open>array<boolean>\<close>, \<open>array<number>\<close> or
  \<open>array<string>\<close>, when it is \<open>string\<close> and the default is not a pattern, when the default
  is an array and no type is declared, and when the default is a function that returns
  and no type is declared. (The shapes left out can raise: \<open>bigint\<close>, \<open>regexp\<close>, \<open>object\<close>
  and the arrays of them.)
\<close>

theorem getOrDefault_safe_shapes:
  assumes t: "resolveType dv ot = Some t"
    and safe: "t = ''boolean'' \<or> t = ''number''
         \<or> t = ''array<boolean>'' \<or> t = ''array<number>'' \<or> t = ''array<string>''
         \<or> (t = ''string'' \<and> \<not> isRegExp dv)
         \<or> (t = ''object'' \<and> isArray dv)
         \<or> (t = ''function'' \<and> dv = JFun (Inr w))"
  shows "\<exists>v. getOrDefault rt env key dv ot = Inr v"
proof -
  have arr: "\<exists>v. toArray xs (\<lambda>s. Inr (g s)) = Inr v" for xs g
    by (simp add: toArray_def convert_each_Inr_map)
  have orE: "\<exists>v. orElse x (Inr y) = Inr v" for x y
    by (simp add: orElse_def split: option.splits)
  have go: "getOrDefault rt env key dv ot =
      (if startsWith t ''array<''
       then switchType rt ''array'' (Some (replace (replace t ''array<'' []) ''>'' [])) (env key) dv
       else switchType rt t None (env key) dv)"
    by (simp add: getOrDefault_def t)
  from safe show ?thesis
    unfolding go
    apply (elim disjE conjE)
    subgoal by (simp add: switchType_def)
    subgoal by (simp add: switchType_def)
    subgoal by (cases "env key") (simp_all add: switchType_def convertElements_def arr)
    subgoal by (cases "env key") (simp_all add: switchType_def convertElements_def arr)
    subgoal by (cases "env key") (simp_all add: switchType_def convertElements_def)
    subgoal by (cases "env key") (simp_all add: switchType_def orE)
    subgoal by (cases "env key") (simp_all add: switchType_def)
    subgoal by (cases "env key") (simp_all add: switchType_def orElse_def opt_call_def)
    done
qed

theorem getOrDefault_safe_shapes_witness:
  "\<exists>v. getOrDefault sample_runtime (Map.empty(''K'' \<mapsto> ''x'')) ''K'' (JNum (Fin 0)) None = Inr v"
proof -
  have t: "resolveType (JNum (Fin 0)) None = Some ''number''"
    by (simp add: resolveType_def)
  show ?thesis by (rule getOrDefault_safe_shapes[OF t]) simp
qed

end
